theory Spec2Isabelle
  imports Main
begin

section \<open>Errors and panics\<close>

text \<open>
  A Go \<open>error\<close> value is identified by its message: \<open>fmt.Errorf\<close> builds one from
  a format string, library errors carry theirs. \<open>Error\<close> is the method \<open>Error()\<close>.
\<close>

datatype error = Errorf string

fun Error :: "error \<Rightarrow> string" where
  "Error (Errorf m) = m"

text \<open>
  A nil pointer dereference is a panic, not an error value: the function does not return.
  A function that can reach one has an \<open>outcome\<close>.
\<close>

datatype 'a outcome = Returns 'a | Panics

section \<open>resolvers: list page information (page\_info.go)\<close>

text \<open>
  \<open>ListPageInfo\<close> holds two cursor pointers and two flags. A pointer is an
  \<open>option\<close>: \<open>None\<close> is nil.
\<close>

record 'c ListPageInfo =
  First :: "'c option"
  Last :: "'c option"
  HasNext :: bool
  HasPrevious :: bool

definition NewListPageInfo ::
  "'c option \<Rightarrow> 'c option \<Rightarrow> bool \<Rightarrow> bool \<Rightarrow> error + 'c ListPageInfo" where
  "NewListPageInfo first last' hasNext hasPrevious =
     (if first = None \<or> last' = None then Inl (Errorf ''missing one of the cursors'')
      else Inr \<lparr>First = first, Last = last', HasNext = hasNext, HasPrevious = hasPrevious\<rparr>)"

section \<open>types: the network node record (NetworkNode)\<close>

text \<open>
  \<open>'n\<close> is \<open>enode.Node\<close> and \<open>'t\<close> is \<open>time.Time\<close>; both come from libraries and
  stay abstract. \<open>Node\<close> is a pointer. \<open>Score\<close> is a Go \<open>int\<close>; nothing modelled
  here can overflow it (it is copied and halved), so it is an \<open>int\<close>.
\<close>

record ('n, 't) NetworkNode =
  Node :: "'n option"
  Score :: int
  Found :: 't
  LastResponse :: 't
  LastCheck :: 't

text \<open>
  The anonymous struct both BSON methods use (\<open>pom\<close> when encoding, \<open>row\<close> when
  decoding). Its fields \<open>Score\<close> and \<open>Found\<close> are prefixed here, since a record field
  is a constant and \<open>NetworkNode\<close> has fields of the same names.
\<close>

record 't bson_row =
  Scheme :: string
  URL :: string
  row_Score :: int
  row_Found :: 't
  Responded :: 't
  Checked :: 't

text \<open>
  The \<open>bson:"..."\<close> tags of that struct: the elements of the document it encodes to,
  in declaration order, each under its tag.
\<close>

datatype 't bson_value = BString string | BInt int | BDateTime 't

definition bson_fields :: "'t bson_row \<Rightarrow> (string \<times> 't bson_value) list" where
  "bson_fields r =
     [(''scheme'', BString (Scheme r)),
      (''url'', BString (URL r)),
      (''score'', BInt (row_Score r)),
      (''found'', BDateTime (row_Found r)),
      (''valid'', BDateTime (Responded r)),
      (''check'', BDateTime (Checked r))]"

text \<open>
  \<open>MarshalBSON\<close>. The library calls are parameters: \<open>node_String\<close> is
  \<open>(*enode.Node).String\<close> and \<open>bson_Marshal\<close> is \<open>bson.Marshal\<close> on the struct.
  \<open>nn.Node.String()\<close> on a nil \<open>Node\<close> dereferences nil and panics.
\<close>

definition MarshalBSON ::
  "('n \<Rightarrow> string) \<Rightarrow> ('t bson_row \<Rightarrow> error + 'b) \<Rightarrow> ('n, 't) NetworkNode \<Rightarrow>
   (error + 'b) outcome" where
  "MarshalBSON node_String bson_Marshal nn =
     (case Node nn of
        None \<Rightarrow> Panics
      | Some n \<Rightarrow>
          Returns (bson_Marshal
            \<lparr>Scheme = ''v4'',
             URL = node_String n,
             row_Score = Score nn,
             row_Found = Found nn,
             Responded = LastResponse nn,
             Checked = LastCheck nn\<rparr>))"

text \<open>
  \<open>UnmarshalBSON\<close> updates the receiver and returns an error or nil; the model returns
  both the error (\<open>None\<close> is nil) and the receiver afterwards. \<open>bson_Unmarshal\<close> is
  \<open>bson.Unmarshal\<close> into the struct and \<open>enode_Parse\<close> is
  \<open>enode.Parse(enode.ValidSchemes, _)\<close>, which returns a nil node with its error; the
  assignment \<open>nn.Node, err = ...\<close> stores that nil.
\<close>

definition UnmarshalBSON ::
  "('b \<Rightarrow> error + 't bson_row) \<Rightarrow> (string \<Rightarrow> error + 'n) \<Rightarrow>
   ('n, 't) NetworkNode \<Rightarrow> 'b \<Rightarrow> error option \<times> ('n, 't) NetworkNode" where
  "UnmarshalBSON bson_Unmarshal enode_Parse nn data =
     (case bson_Unmarshal data of
        Inl err \<Rightarrow> (Some err, nn)
      | Inr row \<Rightarrow>
          (case enode_Parse (URL row) of
             Inl err \<Rightarrow> (Some err, nn\<lparr>Node := None\<rparr>)
           | Inr n \<Rightarrow>
               (None,
                nn\<lparr>Node := Some n,
                   Score := row_Score row,
                   Found := row_Found row,
                   LastResponse := Responded row,
                   LastCheck := Checked row\<rparr>)))"

subsection \<open>The scoring rule\<close>

text \<open>
  Modelled from the spec: the failed-probe transition of the scoring rule. The source
  declares \<open>NetworkNode\<close> and documents that the score is "halved if a check fails",
  but the crawl body that applies the rule is not in the source. The spec's words:
  on a failed probe \<open>score = score / 2\<close> (integer floor division),
  \<open>lastCheck = now\<close>, \<open>lastResponse\<close> unchanged.
\<close>

definition probe_failed :: "'t \<Rightarrow> ('n, 't) NetworkNode \<Rightarrow> ('n, 't) NetworkNode" where
  "probe_failed now nn = nn\<lparr>Score := Score nn div 2, LastCheck := now\<rparr>"

text \<open>
  Modelled from the spec: a sequence of failed probes, one for each probe time of the
  list, oldest first.
\<close>

fun probes_failed :: "'t list \<Rightarrow> ('n, 't) NetworkNode \<Rightarrow> ('n, 't) NetworkNode" where
  "probes_failed [] nn = nn"
| "probes_failed (now # nows) nn = probes_failed nows (probe_failed now nn)"

section \<open>svc: the network crawler\<close>

text \<open>
  Two versions of the crawler are in the source. The definitions follow the fuller one
  (with the node database, the listener and the crawl routine); of the other one,
  \<open>internal/svc/net_crawl.go\<close>, the functions that differ carry the suffix
  \<open>_NodeKey\<close>, after the configuration field it reads the key from. \<open>url2node\<close>
  and \<open>setBootstrap\<close> are the same in both.
\<close>

subsection \<open>Library values\<close>

text \<open>
  \<open>'k\<close> is \<open>ecdsa.PrivateKey\<close>, \<open>'n\<close> is \<open>enode.Node\<close>. The other library objects
  are kept as what the crawler gave to their constructors: the database by its path,
  the local node by its database and key (neither of them nil) and the fallback
  endpoint set on it, the discovery listener by the address of its socket.
\<close>

datatype DB = DB string

record UDPAddr =
  IP :: "nat list"
  Port :: nat

record 'k LocalNode =
  ln_db :: DB
  ln_key :: 'k
  FallbackIP :: "nat list option"
  FallbackUDP :: "nat option"

datatype UDPv5 = UDPv5 UDPAddr

text \<open>The fields of \<open>discover.Config\<close> the crawler sets; \<open>new(discover.Config)\<close> is its zero value.\<close>

record ('k, 'n) Config =
  PrivateKey :: "'k option"
  Bootnodes :: "'n option list"

definition new_Config :: "('k, 'n) Config" where
  "new_Config = \<lparr>PrivateKey = None, Bootnodes = []\<rparr>"

text \<open>
  The library calls whose result the crawler branches on are parameters, collected in a
  record: each returns its value or an error, as its Go signature says.
  \<open>GenerateKey\<close> is \<open>crypto.GenerateKey()\<close>, \<open>HexToECDSA\<close> is \<open>crypto.HexToECDSA\<close>,
  \<open>ParseV4\<close> is \<open>enode.ParseV4\<close>, \<open>OpenDB\<close> is \<open>enode.OpenDB\<close>, \<open>ListenPacket\<close> is
  \<open>net.ListenPacket("udp4", _)\<close> followed by \<open>LocalAddr()\<close>, \<open>IsUnspecified\<close> is
  \<open>net.IP.IsUnspecified\<close> and \<open>ListenV5\<close> is \<open>discover.ListenV5\<close>.
\<close>

record ('k, 'n) library =
  GenerateKey :: "error + 'k"
  HexToECDSA :: "string \<Rightarrow> error + 'k"
  ParseV4 :: "string \<Rightarrow> error + 'n"
  OpenDB :: "string \<Rightarrow> error + DB"
  ListenPacket :: "string \<Rightarrow> error + UDPAddr"
  IsUnspecified :: "nat list \<Rightarrow> bool"
  ListenV5 :: "UDPAddr \<Rightarrow> 'k LocalNode \<Rightarrow> ('k, 'n) Config \<Rightarrow> error + UDPv5"

text \<open>
  The process-wide configuration \<open>cfg\<close> the methods read. Its declaration is not in the
  source; these are the fields the two versions read: \<open>cfg.Sig.PrivateKey\<close>,
  \<open>cfg.Lachesis.NodeKey\<close>, \<open>cfg.LocalNode.V5Bootstrap\<close> (\<open>cfg.Lachesis.V5Bootstrap\<close>
  in the other version), \<open>cfg.LocalNode.DbPath\<close> and \<open>cfg.LocalNode.BindAddress\<close>.
\<close>

record 'k app_config =
  Sig_PrivateKey :: "'k option"
  NodeKey :: string
  V5Bootstrap :: "string list"
  DbPath :: string
  BindAddress :: string

subsection \<open>The crawler and its effects\<close>

text \<open>
  What the crawler does outside its own fields, in the order it happens: a critical log
  line, the orchestrator's \<open>started\<close> and \<open>finished\<close> calls, the start of the crawl
  goroutine, the closing of the discovery listener.
\<close>

datatype event =
    LogCritical string
  | MgrStarted
  | GoCrawl
  | DiscClose UDPv5
  | MgrFinished

text \<open>
  The fields of \<open>networkCrawler\<close>; \<open>sigStop\<close> is the one field of the embedded
  \<open>service\<close> that is assigned (a buffered channel, by the values waiting in it).
  \<open>effects\<close> is not a field of the Go struct: it records the events above.
\<close>

record ('k, 'n) networkCrawler =
  cfg :: "('k, 'n) Config option"
  db :: "DB option"
  node :: "'k LocalNode option"
  disc :: "UDPv5 option"
  isReady :: bool
  sigStop :: "bool list option"
  effects :: "event list"

definition new_networkCrawler :: "('k, 'n) networkCrawler" where
  "new_networkCrawler =
     \<lparr>cfg = None, db = None, node = None, disc = None, isReady = False,
      sigStop = None, effects = []\<rparr>"

definition Criticalf ::
  "string \<Rightarrow> ('k, 'n) networkCrawler \<Rightarrow> ('k, 'n) networkCrawler" where
  "Criticalf msg nec = nec\<lparr>effects := effects nec @ [LogCritical msg]\<rparr>"

definition name :: string where
  "name = ''network crawler''"

subsection \<open>Bootstrap nodes\<close>

definition HasPrefix :: "string \<Rightarrow> string \<Rightarrow> bool" where
  "HasPrefix s p = (length p \<le> length s \<and> take (length p) s = p)"

definition url2node :: "(string \<Rightarrow> error + 'n) \<Rightarrow> string \<Rightarrow> error + 'n" where
  "url2node parseV4 url =
     (if \<not> HasPrefix url ''enode://''
      then Inl (Errorf (''invalid enode url ['' @ url @ '']''))
      else parseV4 url)"

text \<open>
  The loop of \<open>setBootstrap\<close>, from index \<open>i\<close> over the URLs still to do. A failed
  \<open>url2node\<close> returns a nil node, which is stored at \<open>i\<close> before the error is
  returned. The index is always inside the slice, made with the length of the list.
\<close>

fun setBootstrap_loop ::
  "(string \<Rightarrow> error + 'n) \<Rightarrow> nat \<Rightarrow> string list \<Rightarrow> 'n option list \<Rightarrow>
   error option \<times> 'n option list" where
  "setBootstrap_loop parseV4 i [] nodes = (None, nodes)"
| "setBootstrap_loop parseV4 i (url # urls) nodes =
     (case url2node parseV4 url of
        Inl err \<Rightarrow> (Some err, nodes[i := None])
      | Inr n \<Rightarrow> setBootstrap_loop parseV4 (Suc i) urls (nodes[i := Some n]))"

text \<open>
  \<open>setPrivateKey\<close> and \<open>setBootstrap\<close> touch nothing but the \<open>discover.Config\<close> that
  \<open>configure\<close> has just allocated in \<open>nec.cfg\<close>; they are modelled on that value.
\<close>

definition setBootstrap ::
  "('k, 'n) library \<Rightarrow> 'k app_config \<Rightarrow> ('k, 'n) Config \<Rightarrow> error option \<times> ('k, 'n) Config" where
  "setBootstrap lib gcfg c =
     (let (err, nodes) =
            setBootstrap_loop (ParseV4 lib) 0 (V5Bootstrap gcfg)
              (replicate (length (V5Bootstrap gcfg)) None)
      in (err, c\<lparr>Bootnodes := nodes\<rparr>))"

subsection \<open>The private key\<close>

text \<open>A failed library call returns a nil key with its error; the assignment stores it.\<close>

definition assign_key ::
  "error + 'k \<Rightarrow> ('k, 'n) Config \<Rightarrow> error option \<times> ('k, 'n) Config" where
  "assign_key r c =
     (case r of
        Inl err \<Rightarrow> (Some err, c\<lparr>PrivateKey := None\<rparr>)
      | Inr k \<Rightarrow> (None, c\<lparr>PrivateKey := Some k\<rparr>))"

definition setPrivateKey ::
  "('k, 'n) library \<Rightarrow> 'k app_config \<Rightarrow> ('k, 'n) Config \<Rightarrow> error option \<times> ('k, 'n) Config" where
  "setPrivateKey lib gcfg c =
     (case Sig_PrivateKey gcfg of
        None \<Rightarrow> assign_key (GenerateKey lib) c
      | Some k \<Rightarrow> (None, c\<lparr>PrivateKey := Some k\<rparr>))"

definition setPrivateKey_NodeKey ::
  "('k, 'n) library \<Rightarrow> 'k app_config \<Rightarrow> ('k, 'n) Config \<Rightarrow> error option \<times> ('k, 'n) Config" where
  "setPrivateKey_NodeKey lib gcfg c =
     (if NodeKey gcfg = ''''
      then assign_key (GenerateKey lib) c
      else assign_key (HexToECDSA lib (NodeKey gcfg)) c)"

subsection \<open>Configuration and start\<close>

definition openNodesDatabase ::
  "('k, 'n) library \<Rightarrow> 'k app_config \<Rightarrow> ('k, 'n) networkCrawler \<Rightarrow>
   error option \<times> ('k, 'n) networkCrawler" where
  "openNodesDatabase lib gcfg nec =
     (case OpenDB lib (DbPath gcfg) of
        Inl err \<Rightarrow> (Some err, Criticalf (''can not open node database; '' @ Error err) nec)
      | Inr d \<Rightarrow> (None, nec\<lparr>db := Some d\<rparr>))"

definition configure ::
  "('k, 'n) library \<Rightarrow> 'k app_config \<Rightarrow> ('k, 'n) networkCrawler \<Rightarrow>
   error option \<times> ('k, 'n) networkCrawler" where
  "configure lib gcfg nec =
     (case setPrivateKey lib gcfg new_Config of
        (Some err, c) \<Rightarrow> (Some err, nec\<lparr>cfg := Some c\<rparr>)
      | (None, c) \<Rightarrow>
          (case setBootstrap lib gcfg c of
             (Some err, c') \<Rightarrow> (Some err, nec\<lparr>cfg := Some c'\<rparr>)
           | (None, c') \<Rightarrow> openNodesDatabase lib gcfg (nec\<lparr>cfg := Some c'\<rparr>)))"

definition configure_NodeKey ::
  "('k, 'n) library \<Rightarrow> 'k app_config \<Rightarrow> ('k, 'n) networkCrawler \<Rightarrow>
   error option \<times> ('k, 'n) networkCrawler" where
  "configure_NodeKey lib gcfg nec =
     (case setPrivateKey_NodeKey lib gcfg new_Config of
        (Some err, c) \<Rightarrow> (Some err, nec\<lparr>cfg := Some c\<rparr>)
      | (None, c) \<Rightarrow>
          (case setBootstrap lib gcfg c of
             (Some err, c') \<Rightarrow> (Some err, nec\<lparr>cfg := Some c'\<rparr>)
           | (None, c') \<Rightarrow> (None, nec\<lparr>cfg := Some c'\<rparr>)))"

definition init ::
  "('k, 'n) library \<Rightarrow> 'k app_config \<Rightarrow> ('k, 'n) networkCrawler \<Rightarrow> ('k, 'n) networkCrawler" where
  "init lib gcfg nec =
     (case configure lib gcfg (nec\<lparr>sigStop := Some []\<rparr>) of
        (Some err, nec') \<Rightarrow> Criticalf (''can not run local discovery; '' @ Error err) nec'
      | (None, nec') \<Rightarrow> nec'\<lparr>isReady := True\<rparr>)"

definition init_NodeKey ::
  "('k, 'n) library \<Rightarrow> 'k app_config \<Rightarrow> ('k, 'n) networkCrawler \<Rightarrow> ('k, 'n) networkCrawler" where
  "init_NodeKey lib gcfg nec =
     (case configure_NodeKey lib gcfg (nec\<lparr>sigStop := Some []\<rparr>) of
        (Some err, nec') \<Rightarrow> Criticalf (''can not run local discovery; '' @ Error err) nec'
      | (None, nec') \<Rightarrow> nec'\<lparr>isReady := True\<rparr>)"

text \<open>
  \<open>listen\<close> calls \<open>SetFallbackIP\<close> and \<open>SetFallbackUDP\<close> on \<open>nec.node\<close>; on a nil node
  that is a panic. A failed \<open>ListenV5\<close> returns a nil listener, stored in \<open>nec.disc\<close>.
\<close>

definition listen ::
  "('k, 'n) library \<Rightarrow> 'k app_config \<Rightarrow> ('k, 'n) networkCrawler \<Rightarrow>
   (error option \<times> ('k, 'n) networkCrawler) outcome" where
  "listen lib gcfg nec =
     (case ListenPacket lib (BindAddress gcfg) of
        Inl err \<Rightarrow>
          Returns (Some err,
            Criticalf (''can not open p2p node socket at ['' @ BindAddress gcfg @ '']; '' @ Error err) nec)
      | Inr addr \<Rightarrow>
          (case (node nec, cfg nec) of
             (Some ln, Some c) \<Rightarrow>
               (let ip = (if IsUnspecified lib (IP addr) then [127, 0, 0, 1] else IP addr);
                    ln' = ln\<lparr>FallbackIP := Some ip, FallbackUDP := Some (Port addr)\<rparr>;
                    nec' = nec\<lparr>node := Some ln'\<rparr>
                in case ListenV5 lib addr ln' c of
                     Inl err \<Rightarrow>
                       Returns (Some err,
                         Criticalf (''can not start discovery protocol; '' @ Error err)
                           (nec'\<lparr>disc := None\<rparr>))
                   | Inr d \<Rightarrow> Returns (None, nec'\<lparr>disc := Some d\<rparr>))
           | _ \<Rightarrow> Panics))"

text \<open>
  \<open>run\<close>. Past the readiness test it reads \<open>nec.cfg.PrivateKey\<close> (a panic on a nil
  \<open>cfg\<close>) and makes the local node; \<open>enode.NewLocalNode\<close> dereferences the key and
  the database it is given, so a nil one of them is a panic too. Then it listens, and
  only then tells the orchestrator and starts \<open>crawl\<close> as a goroutine.
\<close>

definition run ::
  "('k, 'n) library \<Rightarrow> 'k app_config \<Rightarrow> ('k, 'n) networkCrawler \<Rightarrow>
   ('k, 'n) networkCrawler outcome" where
  "run lib gcfg nec =
     (if \<not> isReady nec
      then Returns (Criticalf ''network crawler not ready and will not run'' nec)
      else
        (case cfg nec of
           None \<Rightarrow> Panics
         | Some c \<Rightarrow>
             (case (db nec, PrivateKey c) of
                (Some d, Some k) \<Rightarrow>
                  (case listen lib gcfg
                          (nec\<lparr>node := Some \<lparr>ln_db = d, ln_key = k,
                                               FallbackIP = None, FallbackUDP = None\<rparr>\<rparr>) of
                     Panics \<Rightarrow> Panics
                   | Returns (Some err, nec') \<Rightarrow>
                       Returns (Criticalf ''network crawler not ready and will not run'' nec')
                   | Returns (None, nec') \<Rightarrow>
                       Returns (nec'\<lparr>effects := effects nec' @ [MgrStarted, GoCrawl]\<rparr>))
              | _ \<Rightarrow> Panics)))"

text \<open>
  \<open>crawl\<close> has an empty body and one deferred function, which runs when it returns:
  it closes \<open>nec.disc\<close> (a panic on a nil listener, and then nothing more runs) and
  tells the orchestrator the crawler has finished.
\<close>

definition crawl :: "('k, 'n) networkCrawler \<Rightarrow> ('k, 'n) networkCrawler outcome" where
  "crawl nec =
     (case disc nec of
        None \<Rightarrow> Panics
      | Some d \<Rightarrow> Returns (nec\<lparr>effects := effects nec @ [DiscClose d, MgrFinished]\<rparr>))"

text \<open>\<open>k\<close> calls of \<open>run\<close>, one after the other.\<close>

fun runs ::
  "nat \<Rightarrow> ('k, 'n) library \<Rightarrow> 'k app_config \<Rightarrow> ('k, 'n) networkCrawler \<Rightarrow>
   ('k, 'n) networkCrawler outcome" where
  "runs 0 lib gcfg nec = Returns nec"
| "runs (Suc k) lib gcfg nec =
     (case run lib gcfg nec of
        Panics \<Rightarrow> Panics
      | Returns nec' \<Rightarrow> runs k lib gcfg nec')"

subsection \<open>A node address parser and example inputs\<close>

text \<open>
  \<open>enode.ParseV4\<close> is library code and is not in the source. The theorems below hold
  for every parser; the one defined here serves as an example of one.
\<close>

text \<open>
  Modelled from the spec: what a node address holds, after the spec's form
  \<open>scheme://<id>@<host>:<port>\<close>: the identifier, the host and the port.
\<close>

record node_address =
  addr_id :: string
  addr_host :: string
  addr_port :: nat

text \<open>
  Modelled from the spec: the port of that form, a string of decimal digits read from
  the left, \<open>a\<close> being the value of the digits read so far.
\<close>

fun decimal :: "nat \<Rightarrow> string \<Rightarrow> nat option" where
  "decimal a [] = Some a"
| "decimal a (c # cs) =
     (if c \<in> set ''0123456789'' then decimal (10 * a + (of_char c - 48)) cs else None)"

text \<open>
  Modelled from the spec: a parser for the missing \<open>enode.ParseV4\<close>. It reads the
  form \<open>scheme://<id>@<host>:<port>\<close> after the \<open>enode://\<close> prefix: the identifier
  up to \<open>@\<close>, the host up to \<open>:\<close>, the decimal port behind it; none may be empty.
\<close>

definition parse_node_address :: "string \<Rightarrow> error + node_address" where
  "parse_node_address url =
     (let rest = drop (length ''enode://'') url;
          ident = takeWhile (\<lambda>c. c \<noteq> CHR ''@'') rest;
          endpoint = drop (Suc (length ident)) rest;
          h = takeWhile (\<lambda>c. c \<noteq> CHR '':'') endpoint;
          p = drop (Suc (length h)) endpoint
      in if ident = [] \<or> h = [] \<or> p = [] then Inl (Errorf ''invalid node address'')
         else (case decimal 0 p of
                 None \<Rightarrow> Inl (Errorf ''invalid port'')
               | Some n \<Rightarrow> Inr \<lparr>addr_id = ident, addr_host = h, addr_port = n\<rparr>))"

text \<open>
  Example inputs: a library in which every call succeeds (keys are numbers, the only
  hexadecimal key is \<open>2a\<close>), and a configuration with no key and a bootstrap list
  whose second URL is not a node address.
\<close>

abbreviation example_library :: "(nat, node_address) library" where
  "example_library \<equiv>
     \<lparr>GenerateKey = Inr 42,
      HexToECDSA =
        (\<lambda>s. if s = ''2a'' then Inr 42 else Inl (Errorf ''invalid hex data for private key'')),
      ParseV4 = parse_node_address,
      OpenDB = (\<lambda>path. Inr (DB path)),
      ListenPacket = (\<lambda>a. Inr \<lparr>IP = [0, 0, 0, 0], Port = 5050\<rparr>),
      IsUnspecified = (\<lambda>ip. ip = [0, 0, 0, 0]),
      ListenV5 = (\<lambda>a ln c. Inr (UDPv5 a))\<rparr>"

abbreviation example_config :: "nat app_config" where
  "example_config \<equiv>
     \<lparr>Sig_PrivateKey = None,
      NodeKey = '''',
      V5Bootstrap = [''enode://abc@1.2.3.4:30303'', ''http://x'', ''enode://def@5.6.7.8:30304''],
      DbPath = '''',
      BindAddress = ''0.0.0.0:5050''\<rparr>"

abbreviation example_node :: "(node_address, nat) NetworkNode" where
  "example_node \<equiv>
     \<lparr>Node = Some \<lparr>addr_id = ''abc'', addr_host = ''1.2.3.4'', addr_port = 30303\<rparr>,
      Score = 13, Found = 100, LastResponse = 200, LastCheck = 300\<rparr>"

subsection \<open>Library behaviour the source relies on\<close>



text \<open>
  The BSON codec stores a \<open>time.Time\<close> as a DateTime: whole milliseconds since the Unix
  epoch, rounded down. With a \<open>time.Time\<close> taken as an instant, in nanoseconds since
  the epoch, these are the two conversions.
\<close>

definition Time_to_DateTime :: "int \<Rightarrow> int" where
  "Time_to_DateTime t = t div 1000000"

definition DateTime_to_Time :: "int \<Rightarrow> int" where
  "DateTime_to_Time ms = ms * 1000000"

text \<open>
  \<open>bson.Marshal\<close> and \<open>bson.Unmarshal\<close> on the struct of the two BSON methods, as far
  as the values go: the encoded document is kept as the struct with its three times as
  DateTimes; strings and the integer are stored as they are.
\<close>

definition bson_Marshal_ms :: "int bson_row \<Rightarrow> error + int bson_row" where
  "bson_Marshal_ms r =
     Inr (r\<lparr>row_Found := Time_to_DateTime (row_Found r),
             Responded := Time_to_DateTime (Responded r),
             Checked := Time_to_DateTime (Checked r)\<rparr>)"

definition bson_Unmarshal_ms :: "int bson_row \<Rightarrow> error + int bson_row" where
  "bson_Unmarshal_ms d =
     Inr (d\<lparr>row_Found := DateTime_to_Time (row_Found d),
             Responded := DateTime_to_Time (Responded d),
             Checked := DateTime_to_Time (Checked d)\<rparr>)"




section \<open>Theorems: list page information\<close>

text \<open>
  C10. \<open>NewListPageInfo\<close> returns an error exactly when the first or the last cursor is
  nil; with both cursors present it returns, with no error, the structure whose
  \<open>First\<close>, \<open>Last\<close>, \<open>HasNext\<close> and \<open>HasPrevious\<close> are the four arguments.
\<close>

theorem NewListPageInfo_error_iff_nil_cursor:
  "isl (NewListPageInfo first last' hasNext hasPrevious) = (first = None \<or> last' = None)
   \<and> NewListPageInfo (Some f) (Some l) hasNext hasPrevious =
       Inr \<lparr>First = Some f, Last = Some l, HasNext = hasNext, HasPrevious = hasPrevious\<rparr>"
  by (simp add: NewListPageInfo_def)

section \<open>Theorems: scoring\<close>

lemma probes_failed_Score:
  "Score (probes_failed nows nn) = Score nn div 2 ^ length nows"
proof (induction nows arbitrary: nn)
  case Nil
  show ?case by simp
next
  case (Cons now nows)
  have "Score (probes_failed (now # nows) nn) = (Score nn div 2) div 2 ^ length nows"
    by (simp add: Cons.IH probe_failed_def)
  also have "\<dots> = Score nn div (2 * 2 ^ length nows)"
    by (simp add: zdiv_zmult2_eq)
  finally show ?case by simp
qed

lemma probes_failed_LastResponse:
  "LastResponse (probes_failed nows nn) = LastResponse nn"
  by (induction nows arbitrary: nn) (simp_all add: probe_failed_def)

text \<open>
  C1. Starting from a score \<open>s0 \<ge> 0\<close>, \<open>n\<close> consecutive failed probes leave the score
  \<open>floor (s0 / 2 ^ n)\<close>, which is never negative, and leave \<open>lastResponse\<close> as it was.
\<close>

theorem failed_probes_halve_score:
  assumes "0 \<le> Score nn" and "length nows = n"
  shows "Score (probes_failed nows nn) = Score nn div 2 ^ n
         \<and> 0 \<le> Score (probes_failed nows nn)
         \<and> LastResponse (probes_failed nows nn) = LastResponse nn
         \<and> LastResponse (probe_failed now nn) = LastResponse nn"
proof -
  have s: "Score (probes_failed nows nn) = Score nn div 2 ^ n"
    using assms(2) by (simp add: probes_failed_Score)
  have "0 \<le> Score nn div 2 ^ n"
    using assms(1) by (simp add: pos_imp_zdiv_nonneg_iff)
  with s show ?thesis
    by (simp add: probes_failed_LastResponse probe_failed_def)
qed

theorem failed_probes_halve_score_witness:
  "(0::int) \<le> 13 \<and> length [10, 20, 30 :: nat] = 3
   \<and> Score (probes_failed [10, 20, 30 :: nat]
        \<lparr>Node = Some (0::nat), Score = 13, Found = 1, LastResponse = 5, LastCheck = 7\<rparr>) = 1
   \<and> LastResponse (probes_failed [10, 20, 30 :: nat]
        \<lparr>Node = Some (0::nat), Score = 13, Found = 1, LastResponse = 5, LastCheck = 7\<rparr>) = 5"
  using failed_probes_halve_score
    [of "\<lparr>Node = Some (0::nat), Score = 13, Found = 1::nat, LastResponse = 5, LastCheck = 7\<rparr>"
        "[10, 20, 30 :: nat]" 3]
  by simp

section \<open>Theorems: the persisted record\<close>

text \<open>
  C6. For a record with a non-nil node, \<open>MarshalBSON\<close> encodes a document with exactly
  the fields \<open>scheme\<close>, \<open>url\<close>, \<open>score\<close>, \<open>found\<close>, \<open>valid\<close> and \<open>check\<close>:
  \<open>url\<close> is the node's address string, \<open>score\<close> the record's \<open>Score\<close>, \<open>found\<close>
  its \<open>Found\<close>, \<open>valid\<close> its \<open>LastResponse\<close> and \<open>check\<close> its \<open>LastCheck\<close>.
\<close>

theorem MarshalBSON_document:
  assumes "Node nn = Some n"
  shows "\<exists>pom. MarshalBSON node_String bson_Marshal nn = Returns (bson_Marshal pom)
           \<and> bson_fields pom =
               [(''scheme'', BString ''v4''),
                (''url'', BString (node_String n)),
                (''score'', BInt (Score nn)),
                (''found'', BDateTime (Found nn)),
                (''valid'', BDateTime (LastResponse nn)),
                (''check'', BDateTime (LastCheck nn))]"
proof -
  let ?pom = "\<lparr>Scheme = ''v4'', URL = node_String n, row_Score = Score nn,
               row_Found = Found nn, Responded = LastResponse nn, Checked = LastCheck nn\<rparr>"
  have "MarshalBSON node_String bson_Marshal nn = Returns (bson_Marshal ?pom)"
    using assms by (simp add: MarshalBSON_def)
  moreover have "bson_fields ?pom =
               [(''scheme'', BString ''v4''),
                (''url'', BString (node_String n)),
                (''score'', BInt (Score nn)),
                (''found'', BDateTime (Found nn)),
                (''valid'', BDateTime (LastResponse nn)),
                (''check'', BDateTime (LastCheck nn))]"
    by (simp add: bson_fields_def)
  ultimately show ?thesis by blast
qed

theorem MarshalBSON_document_witness:
  "Node example_node = Some \<lparr>addr_id = ''abc'', addr_host = ''1.2.3.4'', addr_port = 30303\<rparr>
   \<and> MarshalBSON (\<lambda>a. ''enode://'' @ addr_id a @ ''@'' @ addr_host a @ '':30303'')
        (\<lambda>r. Inr (bson_fields r)) example_node
      = Returns (Inr [(''scheme'', BString ''v4''),
                      (''url'', BString ''enode://abc@1.2.3.4:30303''),
                      (''score'', BInt 13),
                      (''found'', BDateTime 100),
                      (''valid'', BDateTime 200),
                      (''check'', BDateTime 300)])"
proof -
  have h: "Node example_node = Some \<lparr>addr_id = ''abc'', addr_host = ''1.2.3.4'', addr_port = 30303\<rparr>"
    by simp
  show ?thesis
    using h MarshalBSON_document
      [OF h, of "\<lambda>a. ''enode://'' @ addr_id a @ ''@'' @ addr_host a @ '':30303''"
         "\<lambda>r. Inr (bson_fields r)"]
    by auto
qed

text \<open>
  C5. When the \<open>url\<close> of a stored document does not parse as a node address,
  \<open>UnmarshalBSON\<close> returns the parser's error, and \<open>Score\<close>, \<open>Found\<close>,
  \<open>LastResponse\<close> and \<open>LastCheck\<close> of the receiver are what they were: the node is
  parsed before any of them is copied.
\<close>

theorem UnmarshalBSON_bad_url:
  assumes "bson_Unmarshal data = Inr row"
      and "enode_Parse (URL row) = Inl err"
  shows "fst (UnmarshalBSON bson_Unmarshal enode_Parse nn data) = Some err
         \<and> Score (snd (UnmarshalBSON bson_Unmarshal enode_Parse nn data)) = Score nn
         \<and> Found (snd (UnmarshalBSON bson_Unmarshal enode_Parse nn data)) = Found nn
         \<and> LastResponse (snd (UnmarshalBSON bson_Unmarshal enode_Parse nn data)) = LastResponse nn
         \<and> LastCheck (snd (UnmarshalBSON bson_Unmarshal enode_Parse nn data)) = LastCheck nn"
  using assms by (simp add: UnmarshalBSON_def)

theorem UnmarshalBSON_bad_url_witness:
  "parse_node_address ''enode://abc'' = Inl (Errorf ''invalid node address'')
   \<and> UnmarshalBSON Inr parse_node_address example_node
        \<lparr>Scheme = ''v4'', URL = ''enode://abc'', row_Score = 1, row_Found = 1,
         Responded = 2, Checked = 3\<rparr>
      = (Some (Errorf ''invalid node address''), example_node\<lparr>Node := None\<rparr>)"
proof -
  let ?row = "\<lparr>Scheme = ''v4'', URL = ''enode://abc'', row_Score = 1, row_Found = 1::nat,
               Responded = 2, Checked = 3\<rparr>"
  have h1: "(Inr :: nat bson_row \<Rightarrow> error + nat bson_row) ?row = Inr ?row"
    by simp
  have h2: "parse_node_address (URL ?row) = Inl (Errorf ''invalid node address'')"
    by (simp add: parse_node_address_def)
  show ?thesis
    using h1 h2 UnmarshalBSON_bad_url
      [where bson_Unmarshal = Inr and data = "?row" and row = "?row"
         and enode_Parse = parse_node_address and err = "Errorf ''invalid node address''"
         and nn = example_node]
    by (simp add: UnmarshalBSON_def)
qed

text \<open>
  The other error path: a document that does not decode at all leaves the whole receiver
  as it was.
\<close>

lemma UnmarshalBSON_undecodable:
  "bson_Unmarshal data = Inl err \<Longrightarrow>
   UnmarshalBSON bson_Unmarshal enode_Parse nn data = (Some err, nn)"
  by (simp add: UnmarshalBSON_def)

text \<open>
  The BSON codec keeps a time only to the millisecond: a time that goes through it comes
  back rounded down to a whole millisecond.
\<close>

lemma DateTime_roundtrip:
  "DateTime_to_Time (Time_to_DateTime t) = t - t mod 1000000"
  by (simp add: DateTime_to_Time_def Time_to_DateTime_def minus_mod_eq_div_mult)

text \<open>
  So the three times do not always come back as they were: for a record found
  1234567891 nanoseconds after the epoch, what comes back is 1234000000.
\<close>

theorem roundtrip_drops_nanoseconds:
  "MarshalBSON (\<lambda>a. ''enode://'' @ addr_id a @ ''@'' @ addr_host a @ '':30303'') bson_Marshal_ms
     \<lparr>Node = Some \<lparr>addr_id = ''abc'', addr_host = ''1.2.3.4'', addr_port = 30303\<rparr>,
      Score = 13, Found = 1234567891, LastResponse = 2000000000, LastCheck = 3000000000\<rparr>
     = Returns (Inr \<lparr>Scheme = ''v4'', URL = ''enode://abc@1.2.3.4:30303'', row_Score = 13,
                     row_Found = 1234, Responded = 2000, Checked = 3000\<rparr>)
   \<and> UnmarshalBSON bson_Unmarshal_ms parse_node_address
        \<lparr>Node = None, Score = 0, Found = 0, LastResponse = 0, LastCheck = 0\<rparr>
        \<lparr>Scheme = ''v4'', URL = ''enode://abc@1.2.3.4:30303'', row_Score = 13,
         row_Found = 1234, Responded = 2000, Checked = 3000\<rparr>
     = (None,
        \<lparr>Node = Some \<lparr>addr_id = ''abc'', addr_host = ''1.2.3.4'', addr_port = 30303\<rparr>,
         Score = 13, Found = 1234000000, LastResponse = 2000000000, LastCheck = 3000000000\<rparr>)
   \<and> (1234000000 :: int) \<noteq> 1234567891"
  by (simp add: MarshalBSON_def UnmarshalBSON_def bson_Marshal_ms_def bson_Unmarshal_ms_def
      Time_to_DateTime_def DateTime_to_Time_def parse_node_address_def)

text \<open>
  C9, amended. Round trip through the BSON codec. Take a record with a valid node: one
  whose address string parses back to a node of the same identity. \<open>MarshalBSON\<close>
  returns a document, and unmarshalling it succeeds and gives, whatever the receiver
  held before, a record with that identity, parsed from the \<open>url\<close>, the \<open>Score\<close> of
  the original, and its \<open>Found\<close>, \<open>LastResponse\<close> and \<open>LastCheck\<close> rounded down to
  the millisecond; a time of the original that is a whole number of milliseconds comes
  back as it was.
\<close>

theorem MarshalBSON_UnmarshalBSON_roundtrip:
  assumes "Node nn = Some n"
      and "enode_Parse (node_String n) = Inr n'"
      and "node_ID n' = node_ID n"
  shows "\<exists>data. MarshalBSON node_String bson_Marshal_ms nn = Returns (Inr data)
         \<and> fst (UnmarshalBSON bson_Unmarshal_ms enode_Parse nn0 data) = None
         \<and> Node (snd (UnmarshalBSON bson_Unmarshal_ms enode_Parse nn0 data)) = Some n'
         \<and> map_option node_ID (Node (snd (UnmarshalBSON bson_Unmarshal_ms enode_Parse nn0 data)))
             = map_option node_ID (Node nn)
         \<and> Score (snd (UnmarshalBSON bson_Unmarshal_ms enode_Parse nn0 data)) = Score nn
         \<and> Found (snd (UnmarshalBSON bson_Unmarshal_ms enode_Parse nn0 data))
             = Found nn - Found nn mod 1000000
         \<and> LastResponse (snd (UnmarshalBSON bson_Unmarshal_ms enode_Parse nn0 data))
             = LastResponse nn - LastResponse nn mod 1000000
         \<and> LastCheck (snd (UnmarshalBSON bson_Unmarshal_ms enode_Parse nn0 data))
             = LastCheck nn - LastCheck nn mod 1000000
         \<and> (Found nn mod 1000000 = 0 \<longrightarrow>
              Found (snd (UnmarshalBSON bson_Unmarshal_ms enode_Parse nn0 data)) = Found nn)
         \<and> (LastResponse nn mod 1000000 = 0 \<longrightarrow>
              LastResponse (snd (UnmarshalBSON bson_Unmarshal_ms enode_Parse nn0 data))
                = LastResponse nn)
         \<and> (LastCheck nn mod 1000000 = 0 \<longrightarrow>
              LastCheck (snd (UnmarshalBSON bson_Unmarshal_ms enode_Parse nn0 data))
                = LastCheck nn)"
proof -
  let ?data = "\<lparr>Scheme = ''v4'', URL = node_String n, row_Score = Score nn,
                row_Found = Time_to_DateTime (Found nn),
                Responded = Time_to_DateTime (LastResponse nn),
                Checked = Time_to_DateTime (LastCheck nn)\<rparr>"
  have m: "MarshalBSON node_String bson_Marshal_ms nn = Returns (Inr ?data)"
    using assms(1) by (simp add: MarshalBSON_def bson_Marshal_ms_def)
  have u: "UnmarshalBSON bson_Unmarshal_ms enode_Parse nn0 ?data =
       (None, nn0\<lparr>Node := Some n', Score := Score nn,
                   Found := Found nn - Found nn mod 1000000,
                   LastResponse := LastResponse nn - LastResponse nn mod 1000000,
                   LastCheck := LastCheck nn - LastCheck nn mod 1000000\<rparr>)"
    using assms(2) by (simp add: UnmarshalBSON_def bson_Unmarshal_ms_def DateTime_roundtrip)
  show ?thesis
    using m u assms(1) assms(3) by simp
qed

theorem MarshalBSON_UnmarshalBSON_roundtrip_witness:
  "parse_node_address ''enode://abc@1.2.3.4:30303'' =
     Inr \<lparr>addr_id = ''abc'', addr_host = ''1.2.3.4'', addr_port = 30303\<rparr>
   \<and> (100000000 :: int) mod 1000000 = 0
   \<and> MarshalBSON (\<lambda>a. ''enode://'' @ addr_id a @ ''@'' @ addr_host a @ '':30303'') bson_Marshal_ms
        \<lparr>Node = Some \<lparr>addr_id = ''abc'', addr_host = ''1.2.3.4'', addr_port = 30303\<rparr>,
         Score = 13, Found = 100000000, LastResponse = 200000000, LastCheck = 300000000\<rparr>
     = Returns (Inr \<lparr>Scheme = ''v4'', URL = ''enode://abc@1.2.3.4:30303'', row_Score = 13,
                     row_Found = 100, Responded = 200, Checked = 300\<rparr>)
   \<and> UnmarshalBSON bson_Unmarshal_ms parse_node_address
        \<lparr>Node = None, Score = 0, Found = 0, LastResponse = 0, LastCheck = 0\<rparr>
        \<lparr>Scheme = ''v4'', URL = ''enode://abc@1.2.3.4:30303'', row_Score = 13,
         row_Found = 100, Responded = 200, Checked = 300\<rparr>
     = (None,
        \<lparr>Node = Some \<lparr>addr_id = ''abc'', addr_host = ''1.2.3.4'', addr_port = 30303\<rparr>,
         Score = 13, Found = 100000000, LastResponse = 200000000, LastCheck = 300000000\<rparr>)"
proof -
  let ?n = "\<lparr>addr_id = ''abc'', addr_host = ''1.2.3.4'', addr_port = 30303\<rparr>"
  let ?str = "\<lambda>a. ''enode://'' @ addr_id a @ ''@'' @ addr_host a @ '':30303''"
  let ?nn = "\<lparr>Node = Some ?n, Score = 13, Found = 100000000 :: int,
              LastResponse = 200000000, LastCheck = 300000000\<rparr>"
  have h1: "Node ?nn = Some ?n"
    by simp
  have h2: "parse_node_address (?str ?n) = Inr ?n"
    by (simp add: parse_node_address_def)
  have h3: "addr_id ?n = addr_id ?n"
    by simp
  show ?thesis
    using h1 h2 h3 MarshalBSON_UnmarshalBSON_roundtrip
      [where nn = "?nn" and n = "?n" and n' = "?n" and node_String = "?str"
         and enode_Parse = parse_node_address and node_ID = addr_id
         and ?nn0.0 = "\<lparr>Node = None, Score = 0, Found = 0, LastResponse = 0, LastCheck = 0\<rparr>"]
    by (simp add: MarshalBSON_def UnmarshalBSON_def bson_Marshal_ms_def bson_Unmarshal_ms_def
        Time_to_DateTime_def DateTime_to_Time_def parse_node_address_def)
qed

section \<open>Theorems: bootstrap resolution\<close>

lemma url2node_without_prefix:
  "\<not> HasPrefix url ''enode://'' \<Longrightarrow>
   url2node parseV4 url = Inl (Errorf (''invalid enode url ['' @ url @ '']''))"
  by (simp add: url2node_def)


text \<open>
  The loop, when every URL parses: the slots from \<open>i\<close> on receive the parsed nodes in
  the order of the URLs.
\<close>

lemma setBootstrap_loop_ok:
  "map (url2node parseV4) urls = map Inr ns \<Longrightarrow> i + length urls \<le> length nodes \<Longrightarrow>
   setBootstrap_loop parseV4 i urls nodes =
     (None, take i nodes @ map Some ns @ drop (i + length urls) nodes)"
proof (induction urls arbitrary: i nodes ns)
  case Nil
  then show ?case by simp
next
  case (Cons url urls)
  from Cons.prems(1) obtain n ns' where ns: "ns = n # ns'"
    and u: "url2node parseV4 url = Inr n"
    and rest: "map (url2node parseV4) urls = map Inr ns'"
    by (cases ns) auto
  have len: "Suc i + length urls \<le> length (nodes[i := Some n])"
    using Cons.prems(2) by simp
  have i: "i < length nodes"
    using Cons.prems(2) by simp
  have "setBootstrap_loop parseV4 (Suc i) urls (nodes[i := Some n]) =
          (None, take (Suc i) (nodes[i := Some n]) @ map Some ns' @
                 drop (Suc i + length urls) (nodes[i := Some n]))"
    by (rule Cons.IH [OF rest len])
  moreover have "take (Suc i) (nodes[i := Some n]) = take i nodes @ [Some n]"
    using i by (simp add: take_Suc_conv_app_nth)
  moreover have "drop (Suc i + length urls) (nodes[i := Some n]) =
                 drop (Suc i + length urls) nodes"
    by simp
  ultimately show ?case
    using u ns by simp
qed


lemma setBootstrap_ok:
  assumes "map (url2node (ParseV4 lib)) (V5Bootstrap gcfg) = map Inr ns"
  shows "setBootstrap lib gcfg c = (None, c\<lparr>Bootnodes := map Some ns\<rparr>)"
proof -
  have "setBootstrap_loop (ParseV4 lib) 0 (V5Bootstrap gcfg)
          (replicate (length (V5Bootstrap gcfg)) None) = (None, map Some ns)"
    using setBootstrap_loop_ok [OF assms, of 0 "replicate (length (V5Bootstrap gcfg)) None"]
    by simp
  then show ?thesis
    by (simp add: setBootstrap_def)
qed


text \<open>\<open>setBootstrap\<close> returns nil exactly when every URL of the list parses.\<close>

lemma setBootstrap_loop_error_iff:
  "fst (setBootstrap_loop parseV4 i urls nodes) = None \<longleftrightarrow>
     (\<forall>u \<in> set urls. \<not> isl (url2node parseV4 u))"
  by (induction urls arbitrary: i nodes) (auto split: sum.splits)

lemma setBootstrap_error_iff:
  "fst (setBootstrap lib gcfg c) = None \<longleftrightarrow>
     (\<forall>u \<in> set (V5Bootstrap gcfg). \<not> isl (url2node (ParseV4 lib) u))"
  using setBootstrap_loop_error_iff
    [of "ParseV4 lib" 0 "V5Bootstrap gcfg" "replicate (length (V5Bootstrap gcfg)) None"]
  by (simp add: setBootstrap_def case_prod_beta)

lemma setBootstrap_fails_on_any_bad_url:
  assumes "url \<in> set (V5Bootstrap gcfg)" and "\<not> HasPrefix url ''enode://''"
  shows "fst (setBootstrap lib gcfg c) \<noteq> None"
proof -
  have "isl (url2node (ParseV4 lib) url)"
    using assms(2) by (simp add: url2node_without_prefix)
  then show ?thesis
    using assms(1) setBootstrap_error_iff [of lib gcfg c] by blast
qed




text \<open>
  C8. When every bootstrap URL parses, \<open>setBootstrap\<close> returns nil and the bootstrap
  list has the length of the URL list, its \<open>i\<close>-th element being the node parsed from
  the \<open>i\<close>-th URL.
\<close>

theorem setBootstrap_preserves_order:
  assumes "map (url2node (ParseV4 lib)) (V5Bootstrap gcfg) = map Inr ns"
  shows "fst (setBootstrap lib gcfg c) = None
         \<and> length (Bootnodes (snd (setBootstrap lib gcfg c))) = length (V5Bootstrap gcfg)
         \<and> (\<forall>i < length (V5Bootstrap gcfg).
               url2node (ParseV4 lib) (V5Bootstrap gcfg ! i) = Inr (ns ! i)
               \<and> Bootnodes (snd (setBootstrap lib gcfg c)) ! i = Some (ns ! i))"
proof -
  have len: "length ns = length (V5Bootstrap gcfg)"
    using assms by (metis length_map)
  have r: "setBootstrap lib gcfg c = (None, c\<lparr>Bootnodes := map Some ns\<rparr>)"
    using assms by (rule setBootstrap_ok)
  have "url2node (ParseV4 lib) (V5Bootstrap gcfg ! i) = Inr (ns ! i)"
    if "i < length (V5Bootstrap gcfg)" for i
  proof -
    have "map (url2node (ParseV4 lib)) (V5Bootstrap gcfg) ! i = map Inr ns ! i"
      using assms by simp
    then show ?thesis
      using that len by simp
  qed
  then show ?thesis
    using r len by simp
qed

theorem setBootstrap_preserves_order_witness:
  "map (url2node (ParseV4 example_library))
       (V5Bootstrap (example_config
          \<lparr>V5Bootstrap := [''enode://abc@1.2.3.4:30303'', ''enode://def@5.6.7.8:30304'']\<rparr>)) =
     map Inr [\<lparr>addr_id = ''abc'', addr_host = ''1.2.3.4'', addr_port = 30303\<rparr>,
              \<lparr>addr_id = ''def'', addr_host = ''5.6.7.8'', addr_port = 30304\<rparr>]
   \<and> fst (setBootstrap example_library
        (example_config
           \<lparr>V5Bootstrap := [''enode://abc@1.2.3.4:30303'', ''enode://def@5.6.7.8:30304'']\<rparr>)
        new_Config) = None
   \<and> Bootnodes (snd (setBootstrap example_library
        (example_config
           \<lparr>V5Bootstrap := [''enode://abc@1.2.3.4:30303'', ''enode://def@5.6.7.8:30304'']\<rparr>)
        new_Config)) =
       [Some \<lparr>addr_id = ''abc'', addr_host = ''1.2.3.4'', addr_port = 30303\<rparr>,
        Some \<lparr>addr_id = ''def'', addr_host = ''5.6.7.8'', addr_port = 30304\<rparr>]"
proof -
  let ?gcfg = "example_config
          \<lparr>V5Bootstrap := [''enode://abc@1.2.3.4:30303'', ''enode://def@5.6.7.8:30304'']\<rparr>"
  let ?ns = "[\<lparr>addr_id = ''abc'', addr_host = ''1.2.3.4'', addr_port = 30303\<rparr>,
              \<lparr>addr_id = ''def'', addr_host = ''5.6.7.8'', addr_port = 30304\<rparr>]"
  have h: "map (url2node (ParseV4 example_library)) (V5Bootstrap ?gcfg) = map Inr ?ns"
    by (simp add: url2node_def HasPrefix_def parse_node_address_def)
  have b: "Bootnodes (snd (setBootstrap example_library ?gcfg new_Config)) = map Some ?ns"
    by (simp add: setBootstrap_def new_Config_def url2node_def HasPrefix_def
        parse_node_address_def)
  show ?thesis
    using h b setBootstrap_preserves_order
      [where lib = example_library and gcfg = "?gcfg" and ns = "?ns" and c = new_Config]
    by simp
qed

section \<open>Theorems: identity resolution\<close>

text \<open>
  Not every configured key is parsed, and \<open>setPrivateKey\<close> does not always fail
  where a parse would. The crawler that reads \<open>cfg.Sig.PrivateKey\<close> does not
  parse: the configured value is a key already and is assigned as it is. With the
  example library, whose key parser rejects \<open>xyz\<close>, and a configuration holding the
  key 7 beside that unparsable string, \<open>setPrivateKey\<close> returns nil and stores the key.
\<close>

theorem setPrivateKey_does_not_parse:
  "HexToECDSA example_library ''xyz'' = Inl (Errorf ''invalid hex data for private key'')
   \<and> setPrivateKey example_library
        (example_config\<lparr>Sig_PrivateKey := Some 7, NodeKey := ''xyz''\<rparr>) new_Config =
       (None, \<lparr>PrivateKey = Some 7, Bootnodes = []\<rparr>)"
  by (simp add: setPrivateKey_def new_Config_def)

text \<open>
  C7, amended. With no key configured, \<open>setPrivateKey\<close> stores the key the library
  generates and returns nil, in both versions. In the version that reads the key from
  \<open>cfg.Lachesis.NodeKey\<close>, a configured key is parsed, and stored when it parses;
  when it does not parse, \<open>setPrivateKey\<close> returns the parser's error and stores no
  key, \<open>configure\<close> returns the same error, and \<open>init\<close> leaves \<open>isReady\<close> as it
  was. In the version that reads \<open>cfg.Sig.PrivateKey\<close>, the configured value is a
  keypair already: \<open>setPrivateKey\<close> assigns it without parsing and returns nil.
\<close>

theorem setPrivateKey_resolves_identity:
  "(NodeKey gcfg = '''' \<and> GenerateKey lib = Inr k \<longrightarrow>
      setPrivateKey_NodeKey lib gcfg c = (None, c\<lparr>PrivateKey := Some k\<rparr>))
   \<and> (NodeKey gcfg \<noteq> '''' \<and> HexToECDSA lib (NodeKey gcfg) = Inr k \<longrightarrow>
      setPrivateKey_NodeKey lib gcfg c = (None, c\<lparr>PrivateKey := Some k\<rparr>))
   \<and> (NodeKey gcfg \<noteq> '''' \<and> HexToECDSA lib (NodeKey gcfg) = Inl err \<longrightarrow>
      setPrivateKey_NodeKey lib gcfg c = (Some err, c\<lparr>PrivateKey := None\<rparr>)
      \<and> fst (configure_NodeKey lib gcfg nec) = Some err
      \<and> isReady (init_NodeKey lib gcfg nec) = isReady nec)
   \<and> (Sig_PrivateKey gcfg = None \<and> GenerateKey lib = Inr k \<longrightarrow>
      setPrivateKey lib gcfg c = (None, c\<lparr>PrivateKey := Some k\<rparr>))
   \<and> (Sig_PrivateKey gcfg = Some k \<longrightarrow>
      setPrivateKey lib gcfg c = (None, c\<lparr>PrivateKey := Some k\<rparr>))"
  by (auto simp: setPrivateKey_NodeKey_def setPrivateKey_def assign_key_def
      configure_NodeKey_def init_NodeKey_def Criticalf_def)

theorem setPrivateKey_resolves_identity_witness:
  "NodeKey example_config = '''' \<and> GenerateKey example_library = Inr 42
   \<and> setPrivateKey_NodeKey example_library example_config new_Config =
       (None, \<lparr>PrivateKey = Some 42, Bootnodes = []\<rparr>)
   \<and> NodeKey (example_config\<lparr>NodeKey := ''2a''\<rparr>) \<noteq> ''''
   \<and> HexToECDSA example_library ''2a'' = Inr 42
   \<and> setPrivateKey_NodeKey example_library (example_config\<lparr>NodeKey := ''2a''\<rparr>) new_Config =
       (None, \<lparr>PrivateKey = Some 42, Bootnodes = []\<rparr>)
   \<and> NodeKey (example_config\<lparr>NodeKey := ''xyz''\<rparr>) \<noteq> ''''
   \<and> HexToECDSA example_library ''xyz'' = Inl (Errorf ''invalid hex data for private key'')
   \<and> setPrivateKey_NodeKey example_library (example_config\<lparr>NodeKey := ''xyz''\<rparr>) new_Config =
       (Some (Errorf ''invalid hex data for private key''), \<lparr>PrivateKey = None, Bootnodes = []\<rparr>)
   \<and> fst (configure_NodeKey example_library (example_config\<lparr>NodeKey := ''xyz''\<rparr>)
            new_networkCrawler) = Some (Errorf ''invalid hex data for private key'')
   \<and> \<not> isReady (init_NodeKey example_library (example_config\<lparr>NodeKey := ''xyz''\<rparr>)
            new_networkCrawler)
   \<and> Sig_PrivateKey example_config = None
   \<and> setPrivateKey example_library example_config new_Config =
       (None, \<lparr>PrivateKey = Some 42, Bootnodes = []\<rparr>)
   \<and> Sig_PrivateKey (example_config\<lparr>Sig_PrivateKey := Some 7\<rparr>) = Some 7
   \<and> setPrivateKey example_library (example_config\<lparr>Sig_PrivateKey := Some 7\<rparr>) new_Config =
       (None, \<lparr>PrivateKey = Some 7, Bootnodes = []\<rparr>)"
  using
    setPrivateKey_resolves_identity
      [where gcfg = example_config and lib = example_library and k = 42 and c = new_Config]
    setPrivateKey_resolves_identity
      [where gcfg = "example_config\<lparr>NodeKey := ''2a''\<rparr>" and lib = example_library
         and k = 42 and c = new_Config]
    setPrivateKey_resolves_identity
      [where gcfg = "example_config\<lparr>NodeKey := ''xyz''\<rparr>" and lib = example_library
         and err = "Errorf ''invalid hex data for private key''" and c = new_Config
         and nec = new_networkCrawler]
    setPrivateKey_resolves_identity
      [where gcfg = "example_config\<lparr>Sig_PrivateKey := Some 7\<rparr>" and lib = example_library
         and k = 7 and c = new_Config]
  by (simp add: new_Config_def new_networkCrawler_def)

text \<open>A failed generation is returned as the error, in both versions.\<close>

lemma setPrivateKey_generation_error:
  "GenerateKey lib = Inl err \<Longrightarrow>
   (NodeKey gcfg = '''' \<longrightarrow>
      setPrivateKey_NodeKey lib gcfg c = (Some err, c\<lparr>PrivateKey := None\<rparr>))
   \<and> (Sig_PrivateKey gcfg = None \<longrightarrow>
      setPrivateKey lib gcfg c = (Some err, c\<lparr>PrivateKey := None\<rparr>))"
  by (simp add: setPrivateKey_NodeKey_def setPrivateKey_def assign_key_def)

section \<open>Theorems: the service lifecycle\<close>

text \<open>Whether a configuration step fails does not depend on the state it is run in.\<close>

lemma assign_key_fst:
  "fst (assign_key r c) = (case r of Inl e \<Rightarrow> Some e | Inr k \<Rightarrow> None)"
  by (simp add: assign_key_def split: sum.splits)

lemma setPrivateKey_error_indep:
  "fst (setPrivateKey lib gcfg c) = fst (setPrivateKey lib gcfg c')"
  by (simp add: setPrivateKey_def assign_key_fst split: option.splits)

lemma setBootstrap_error_indep:
  "fst (setBootstrap lib gcfg c) = fst (setBootstrap lib gcfg c')"
  by (simp add: setBootstrap_def case_prod_beta)

lemma openNodesDatabase_error_indep:
  "fst (openNodesDatabase lib gcfg nec) = fst (openNodesDatabase lib gcfg nec')"
  by (simp add: openNodesDatabase_def split: sum.splits)

text \<open>
  Configuration changes neither \<open>isReady\<close> nor the local node nor the listener, and
  its only effects are log lines.
\<close>

lemma openNodesDatabase_frame:
  assumes "openNodesDatabase lib gcfg nec = (r, nec')"
  shows "isReady nec' = isReady nec \<and> node nec' = node nec \<and> disc nec' = disc nec \<and>
         (\<exists>logs. effects nec' = effects nec @ map LogCritical logs)"
proof (cases "OpenDB lib (DbPath gcfg)")
  case (Inl err)
  with assms have "nec' = Criticalf (''can not open node database; '' @ Error err) nec"
    by (simp add: openNodesDatabase_def)
  then have "effects nec' =
               effects nec @ map LogCritical [''can not open node database; '' @ Error err]"
    and "isReady nec' = isReady nec" and "node nec' = node nec" and "disc nec' = disc nec"
    by (simp_all add: Criticalf_def)
  then show ?thesis by blast
next
  case (Inr d)
  with assms have "nec' = nec\<lparr>db := Some d\<rparr>"
    by (simp add: openNodesDatabase_def)
  then have "effects nec' = effects nec @ map LogCritical []"
    and "isReady nec' = isReady nec" and "node nec' = node nec" and "disc nec' = disc nec"
    by simp_all
  then show ?thesis by blast
qed

lemma configure_frame:
  assumes "configure lib gcfg nec = (r, nec')"
  shows "isReady nec' = isReady nec \<and> node nec' = node nec \<and> disc nec' = disc nec \<and>
         (\<exists>logs. effects nec' = effects nec @ map LogCritical logs)"
proof -
  obtain e1 c1 where k: "setPrivateKey lib gcfg new_Config = (e1, c1)"
    by fastforce
  obtain e2 c2 where b: "setBootstrap lib gcfg c1 = (e2, c2)"
    by fastforce
  show ?thesis
  proof (cases "e1 = None \<and> e2 = None")
    case True
    then have "openNodesDatabase lib gcfg (nec\<lparr>cfg := Some c2\<rparr>) = (r, nec')"
      using assms k b by (simp add: configure_def)
    from openNodesDatabase_frame [OF this] show ?thesis
      by simp
  next
    case False
    then have "nec' = nec\<lparr>cfg := Some c1\<rparr> \<or> nec' = nec\<lparr>cfg := Some c2\<rparr>"
      using assms k b by (auto simp: configure_def split: option.splits)
    then have "effects nec' = effects nec @ map LogCritical []"
      and "isReady nec' = isReady nec" and "node nec' = node nec" and "disc nec' = disc nec"
      by auto
    then show ?thesis by blast
  qed
qed

text \<open>\<open>configure\<close> returns nil exactly when each of its three steps does.\<close>

lemma configure_error_iff:
  "fst (configure lib gcfg nec) = None \<longleftrightarrow>
     fst (setPrivateKey lib gcfg c1) = None \<and> fst (setBootstrap lib gcfg c2) = None \<and>
     fst (openNodesDatabase lib gcfg nec3) = None"
proof -
  obtain e1 k1 where k: "setPrivateKey lib gcfg new_Config = (e1, k1)"
    by fastforce
  obtain e2 k2 where b: "setBootstrap lib gcfg k1 = (e2, k2)"
    by fastforce
  have 1: "fst (setPrivateKey lib gcfg c1) = e1"
    using setPrivateKey_error_indep [of lib gcfg c1 new_Config] k by simp
  have 2: "fst (setBootstrap lib gcfg c2) = e2"
    using setBootstrap_error_indep [of lib gcfg c2 k1] b by simp
  have 3: "fst (openNodesDatabase lib gcfg nec3) =
           fst (openNodesDatabase lib gcfg (nec\<lparr>cfg := Some k2\<rparr>))"
    by (rule openNodesDatabase_error_indep)
  show ?thesis
    unfolding 1 2 3 using k b by (auto simp: configure_def split: option.splits)
qed

lemma init_ready_iff:
  "\<not> isReady nec \<Longrightarrow>
   isReady (init lib gcfg nec) \<longleftrightarrow> fst (configure lib gcfg (nec\<lparr>sigStop := Some []\<rparr>)) = None"
proof -
  assume nr: "\<not> isReady nec"
  obtain r nec1 where c: "configure lib gcfg (nec\<lparr>sigStop := Some []\<rparr>) = (r, nec1)"
    by fastforce
  from configure_frame [OF c] have "isReady nec1 = isReady nec"
    by simp
  then show ?thesis
    using c nr by (cases r) (simp_all add: init_def Criticalf_def)
qed

text \<open>A crawler that is not ready only logs, however often \<open>run\<close> is called.\<close>

lemma run_not_ready:
  "\<not> isReady nec \<Longrightarrow>
   run lib gcfg nec = Returns (Criticalf ''network crawler not ready and will not run'' nec)"
  by (simp add: run_def)

lemma runs_not_ready:
  "\<not> isReady nec \<Longrightarrow>
   runs k lib gcfg nec =
     Returns (nec\<lparr>effects := effects nec @
        map LogCritical (replicate k ''network crawler not ready and will not run'')\<rparr>)"
proof (induction k arbitrary: nec)
  case 0
  show ?case by simp
next
  case (Suc k)
  let ?nec = "Criticalf ''network crawler not ready and will not run'' nec"
  have nr: "\<not> isReady ?nec"
    using Suc.prems by (simp add: Criticalf_def)
  have "runs (Suc k) lib gcfg nec = runs k lib gcfg ?nec"
    using Suc.prems by (simp add: run_not_ready)
  also have "\<dots> = Returns (?nec\<lparr>effects := effects ?nec @
        map LogCritical (replicate k ''network crawler not ready and will not run'')\<rparr>)"
    by (rule Suc.IH [OF nr])
  finally show ?case
    by (simp add: Criticalf_def replicate_app_Cons_same)
qed

text \<open>
  C3. Let a crawler that is not ready be initialised while identity resolution,
  bootstrap resolution or the opening of the node database fails. Then \<open>isReady\<close> is
  still false after \<open>init\<close>, and any number \<open>k\<close> of calls of \<open>run\<close> after it return
  with \<open>isReady\<close> false, the local node and the listener untouched, and nothing but log
  lines among the effects: no \<open>started\<close> signal to the orchestrator, no crawl
  goroutine.
\<close>

theorem failed_init_never_runs:
  assumes "\<not> isReady nec"
      and "fst (setPrivateKey lib gcfg c1) \<noteq> None
           \<or> fst (setBootstrap lib gcfg c2) \<noteq> None
           \<or> fst (openNodesDatabase lib gcfg nec3) \<noteq> None"
  shows "\<not> isReady (init lib gcfg nec)
         \<and> (\<exists>nec' logs. runs k lib gcfg (init lib gcfg nec) = Returns nec'
               \<and> \<not> isReady nec' \<and> node nec' = node nec \<and> disc nec' = disc nec
               \<and> effects nec' = effects nec @ map LogCritical logs
               \<and> MgrStarted \<notin> set (drop (length (effects nec)) (effects nec'))
               \<and> GoCrawl \<notin> set (drop (length (effects nec)) (effects nec')))"
proof -
  obtain r nec1 where c: "configure lib gcfg (nec\<lparr>sigStop := Some []\<rparr>) = (r, nec1)"
    by fastforce
  have "r \<noteq> None"
    using assms(2) configure_error_iff [of lib gcfg "nec\<lparr>sigStop := Some []\<rparr>" c1 c2 nec3] c
    by auto
  then obtain err where r: "r = Some err"
    by auto
  from configure_frame [OF c] obtain logs1 where
    f: "isReady nec1 = isReady nec" "node nec1 = node nec" "disc nec1 = disc nec"
       "effects nec1 = effects nec @ map LogCritical logs1"
    by auto
  let ?m = "''can not run local discovery; '' @ Error err"
  have i: "init lib gcfg nec = Criticalf ?m nec1"
    using c r by (simp add: init_def)
  have nr: "\<not> isReady (init lib gcfg nec)"
    using i f(1) assms(1) by (simp add: Criticalf_def)
  let ?logs = "logs1 @ [?m] @ replicate k ''network crawler not ready and will not run''"
  let ?nec' = "(init lib gcfg nec)\<lparr>effects := effects (init lib gcfg nec) @
        map LogCritical (replicate k ''network crawler not ready and will not run'')\<rparr>"
  have "runs k lib gcfg (init lib gcfg nec) = Returns ?nec'"
    by (rule runs_not_ready [OF nr])
  moreover have "\<not> isReady ?nec'"
    using nr by simp
  moreover have "node ?nec' = node nec" and "disc ?nec' = disc nec"
    using i f by (simp_all add: Criticalf_def)
  moreover have e: "effects ?nec' = effects nec @ map LogCritical ?logs"
    using i f by (simp add: Criticalf_def)
  moreover have "MgrStarted \<notin> set (drop (length (effects nec)) (effects ?nec'))"
    and "GoCrawl \<notin> set (drop (length (effects nec)) (effects ?nec'))"
    unfolding e by auto
  ultimately show ?thesis
    using nr by blast
qed

theorem failed_init_never_runs_witness:
  "\<not> isReady (new_networkCrawler :: (nat, node_address) networkCrawler)
   \<and> fst (setBootstrap example_library example_config new_Config) \<noteq> None
   \<and> \<not> isReady (init example_library example_config new_networkCrawler)
   \<and> runs 2 example_library example_config
        (init example_library example_config new_networkCrawler) =
       Returns
         \<lparr>cfg = Some \<lparr>PrivateKey = Some 42,
                       Bootnodes =
                         [Some \<lparr>addr_id = ''abc'', addr_host = ''1.2.3.4'', addr_port = 30303\<rparr>,
                          None, None]\<rparr>,
          db = None, node = None, disc = None, isReady = False, sigStop = Some [],
          effects = [LogCritical ''can not run local discovery; invalid enode url [http://x]'',
                     LogCritical ''network crawler not ready and will not run'',
                     LogCritical ''network crawler not ready and will not run'']\<rparr>"
  using failed_init_never_runs
    [of new_networkCrawler example_library example_config new_Config new_Config
        new_networkCrawler 2]
  by (simp add: new_networkCrawler_def new_Config_def init_def configure_def setPrivateKey_def
      assign_key_def setBootstrap_def url2node_def HasPrefix_def parse_node_address_def
      run_def Criticalf_def numeral_2_eq_2)

text \<open>
  \<open>run\<close> starts the crawl only after \<open>listen\<close> has stored a listener, and tells the
  orchestrator just before.
\<close>

lemma listen_ok_disc:
  "listen lib gcfg nec = Returns (None, nec') \<Longrightarrow>
   \<exists>d. disc nec' = Some d \<and> effects nec' = effects nec"
  by (auto simp: listen_def Let_def Criticalf_def split: sum.splits option.splits)

lemma listen_error_effects:
  "listen lib gcfg nec = Returns (Some e, nec') \<Longrightarrow>
   \<exists>m. effects nec' = effects nec @ [LogCritical m]"
  by (auto simp: listen_def Let_def Criticalf_def split: sum.splits option.splits)

lemma run_started_disc:
  "run lib gcfg nec = Returns nec' \<Longrightarrow>
   GoCrawl \<in> set (drop (length (effects nec)) (effects nec')) \<Longrightarrow>
   \<exists>d. disc nec' = Some d \<and> effects nec' = effects nec @ [MgrStarted, GoCrawl]"
  by (auto simp: run_def Criticalf_def
      split: if_splits option.splits outcome.splits prod.splits
      dest!: listen_ok_disc listen_error_effects)

text \<open>
  C4. A crawl that terminates has closed the discovery listener once and then told the
  orchestrator once that it finished, in this order and with nothing else: its effects
  are the closing followed by the signal. With a listener in place, as \<open>run\<close> leaves
  one, it does terminate.
\<close>

theorem crawl_closes_then_finishes:
  "(crawl nec = Returns nec' \<longrightarrow>
      (\<exists>d'. disc nec = Some d' \<and> effects nec' = effects nec @ [DiscClose d', MgrFinished]))
   \<and> (disc nec = Some d \<longrightarrow>
      crawl nec = Returns (nec\<lparr>effects := effects nec @ [DiscClose d, MgrFinished]\<rparr>))"
  by (auto simp: crawl_def split: option.splits)

theorem crawl_closes_then_finishes_witness:
  "disc (new_networkCrawler\<lparr>disc := Some (UDPv5 \<lparr>IP = [0, 0, 0, 0], Port = 5050\<rparr>),
                            effects := [MgrStarted, GoCrawl]\<rparr>
          :: (nat, node_address) networkCrawler) =
     Some (UDPv5 \<lparr>IP = [0, 0, 0, 0], Port = 5050\<rparr>)
   \<and> crawl (new_networkCrawler\<lparr>disc := Some (UDPv5 \<lparr>IP = [0, 0, 0, 0], Port = 5050\<rparr>),
                                effects := [MgrStarted, GoCrawl]\<rparr>
              :: (nat, node_address) networkCrawler) =
       Returns (new_networkCrawler
         \<lparr>disc := Some (UDPv5 \<lparr>IP = [0, 0, 0, 0], Port = 5050\<rparr>),
          effects := [MgrStarted, GoCrawl,
                      DiscClose (UDPv5 \<lparr>IP = [0, 0, 0, 0], Port = 5050\<rparr>), MgrFinished]\<rparr>)"
  using crawl_closes_then_finishes
    [where nec = "new_networkCrawler\<lparr>disc := Some (UDPv5 \<lparr>IP = [0, 0, 0, 0], Port = 5050\<rparr>),
                                     effects := [MgrStarted, GoCrawl]\<rparr>
                  :: (nat, node_address) networkCrawler"
       and d = "UDPv5 \<lparr>IP = [0, 0, 0, 0], Port = 5050\<rparr>"
       and nec' = "new_networkCrawler
         \<lparr>disc := Some (UDPv5 \<lparr>IP = [0, 0, 0, 0], Port = 5050\<rparr>),
          effects := [MgrStarted, GoCrawl,
                      DiscClose (UDPv5 \<lparr>IP = [0, 0, 0, 0], Port = 5050\<rparr>), MgrFinished]\<rparr>"]
  by (simp add: new_networkCrawler_def)

text \<open>
  The example crawler with a bootstrap list that parses: after \<open>init\<close> and \<open>run\<close>
  it is ready, has its local node and its listener, and has told the orchestrator and
  started the crawl.
\<close>

lemma example_lifecycle:
  "run example_library (example_config\<lparr>V5Bootstrap := [''enode://abc@1.2.3.4:30303'']\<rparr>)
     (init example_library (example_config\<lparr>V5Bootstrap := [''enode://abc@1.2.3.4:30303'']\<rparr>)
        new_networkCrawler) =
   Returns
     \<lparr>cfg = Some \<lparr>PrivateKey = Some 42,
                   Bootnodes =
                     [Some \<lparr>addr_id = ''abc'', addr_host = ''1.2.3.4'', addr_port = 30303\<rparr>]\<rparr>,
      db = Some (DB []),
      node = Some \<lparr>ln_db = DB [], ln_key = 42,
                    FallbackIP = Some [127, 0, 0, 1], FallbackUDP = Some 5050\<rparr>,
      disc = Some (UDPv5 \<lparr>IP = [0, 0, 0, 0], Port = 5050\<rparr>),
      isReady = True, sigStop = Some [],
      effects = [MgrStarted, GoCrawl]\<rparr>"
  by (simp add: new_networkCrawler_def new_Config_def init_def configure_def setPrivateKey_def
      assign_key_def setBootstrap_def url2node_def HasPrefix_def parse_node_address_def
      openNodesDatabase_def run_def listen_def Criticalf_def)

end
